theory Spec2Isabelle
  imports Main "HOL-Library.Word"
begin

section \<open>The wrapper layer of the medical-assistant client\<close>

text \<open>
  The development embeds \<^verbatim>\<open>client/src/lib/aiService.ts\<close> and the storage
  configuration module that follows it. Every function of the source is a thin wrapper
  around a remote service or a browser interface, so each embedded function takes the
  outcome of the external operation as an argument and returns what the wrapper makes of
  it. Console output is diagnostic only and is left out.
\<close>

subsection \<open>Strings\<close>

text \<open>
  A JavaScript string is a sequence of 16-bit code units. String literals of the source
  are ASCII and are written as HOL strings, converted by \<open>js\<close>.
\<close>

type_synonym js_string = "16 word list"

definition js :: "string \<Rightarrow> js_string" where
  "js s = map of_char s"

text \<open>
  \<^verbatim>\<open>String.prototype.trim\<close> removes the code units of the ECMAScript productions
  WhiteSpace and LineTerminator from both ends.
\<close>

definition white_space :: "16 word \<Rightarrow> bool" where
  "white_space c \<longleftrightarrow>
     c = 0x0009 \<or> c = 0x000A \<or> c = 0x000B \<or> c = 0x000C \<or> c = 0x000D \<or> c = 0x0020 \<or>
     c = 0x00A0 \<or> c = 0x1680 \<or> (0x2000 \<le> c \<and> c \<le> 0x200A) \<or> c = 0x2028 \<or>
     c = 0x2029 \<or> c = 0x202F \<or> c = 0x205F \<or> c = 0x3000 \<or> c = 0xFEFF"

definition trim :: "js_string \<Rightarrow> js_string" where
  "trim s = rev (dropWhile white_space (rev (dropWhile white_space s)))"

text \<open>The truth value of a string in a condition: only the empty string is falsy.\<close>

definition falsy_string :: "js_string \<Rightarrow> bool" where
  "falsy_string s \<longleftrightarrow> s = []"

text \<open>
  \<^verbatim>\<open>Number.prototype.toString\<close> on an integral number below \<open>10^21\<close> in magnitude,
  which covers every time value: the decimal digits, after a minus sign when negative.
\<close>

definition digit_char :: "nat \<Rightarrow> 16 word" where
  "digit_char d = of_nat (48 + d)"

fun digits :: "nat \<Rightarrow> js_string" where
  "digits n = (if n < 10 then [digit_char n] else digits (n div 10) @ [digit_char (n mod 10)])"

declare digits.simps [simp del]

definition Number_toString :: "int \<Rightarrow> js_string" where
  "Number_toString i = (if i < 0 then 0x002D # digits (nat (- i)) else digits (nat i))"

subsection \<open>Errors and promises\<close>

text \<open>
  A thrown \<^verbatim>\<open>Error\<close> object with its \<^verbatim>\<open>name\<close> and \<^verbatim>\<open>message\<close>.
  \<open>Error\<close> is \<^verbatim>\<open>new Error(msg)\<close>; the text of a \<^verbatim>\<open>TypeError\<close> raised by the engine
  itself is the engine's own and is supplied by the host.
\<close>

record js_error =
  error_name :: js_string
  message :: js_string

definition Error :: "js_string \<Rightarrow> js_error" where
  "Error msg = \<lparr>error_name = js ''Error'', message = msg\<rparr>"

definition TypeError :: "js_string \<Rightarrow> js_error" where
  "TypeError msg = \<lparr>error_name = js ''TypeError'', message = msg\<rparr>"

text \<open>
  The state of a promise. The promise of an \<^verbatim>\<open>async\<close> function stays \<open>Pending\<close> when
  something it awaits never settles.
\<close>

datatype ('a, 'r) promise = Pending | Fulfilled 'a | Rejected 'r

text \<open>
  The resolving functions of a promise: they act on a pending promise only, and return
  normally on a settled one.
\<close>

definition resolve :: "'a \<Rightarrow> ('a, 'r) promise \<Rightarrow> ('a, 'r) promise" where
  "resolve v p = (case p of Pending \<Rightarrow> Fulfilled v | Fulfilled w \<Rightarrow> p | Rejected r \<Rightarrow> p)"

definition reject :: "'r \<Rightarrow> ('a, 'r) promise \<Rightarrow> ('a, 'r) promise" where
  "reject r p = (case p of Pending \<Rightarrow> Rejected r | Fulfilled w \<Rightarrow> p | Rejected q \<Rightarrow> p)"

text \<open>A reference that may be \<^verbatim>\<open>null\<close> or \<^verbatim>\<open>undefined\<close>; both are falsy.\<close>

datatype 'a js_ref = JsNull | JsUndefined | JsObject 'a

definition falsy_ref :: "'a js_ref \<Rightarrow> bool" where
  "falsy_ref r = (case r of JsNull \<Rightarrow> True | JsUndefined \<Rightarrow> True | JsObject x \<Rightarrow> False)"

subsection \<open>The generative service\<close>

text \<open>
  The client library of the generative service is external. A request is a prompt alone
  or a list of parts; awaiting \<^verbatim>\<open>generateContent\<close> never settles, throws, or yields a
  result whose \<^verbatim>\<open>response.text()\<close> throws or returns a string. What is thrown is an
  \<^verbatim>\<open>Error\<close> object. The \<^verbatim>\<open>data\<close> of an inline part is \<open>None\<close> when the source hands
  over \<^verbatim>\<open>undefined\<close>.
\<close>

record inline_data =
  data :: "js_string option"
  mimeType :: js_string

datatype part = TextPart js_string | InlinePart inline_data

datatype gen_request = Prompt js_string | Parts "part list"

datatype 'a awaited = Never | Throws js_error | Returns 'a

type_synonym gen_service = "gen_request \<Rightarrow> (js_error + js_string) awaited"

record service_env =
  generateContent :: gen_service

text \<open>
  One call of an adapter: the requests it handed to the service, in order, and the state
  its promise ends in.
\<close>

record 'a call =
  sent :: "gen_request list"
  outcome :: "('a, js_error) promise"

text \<open>
  Lines 42 to 51 and 101 to 110: await the service, read the text of the response, and
  throw on a falsy text.
\<close>

definition response_text :: "(js_error + js_string) awaited \<Rightarrow> (js_string, js_error) promise" where
  "response_text r =
     (case r of
        Never \<Rightarrow> Pending
      | Throws e \<Rightarrow> Rejected e
      | Returns (Inl e) \<Rightarrow> Rejected e
      | Returns (Inr text) \<Rightarrow>
          if falsy_string text then Rejected (Error (js ''Empty response from AI''))
          else Fulfilled text)"

subsection \<open>Chat adapter\<close>

datatype role = User | Assistant

record Message =
  id :: js_string
  role :: role
  content :: js_string
  timestamp :: int

text \<open>
  What one call of \<open>sendMessage\<close> meets: the service, the reading of \<^verbatim>\<open>Date.now()\<close> and
  the time value of \<^verbatim>\<open>new Date()\<close> at the moment the response has arrived.
\<close>

record chat_env = service_env +
  Date_now :: int
  new_Date :: int

definition chat_prompt :: "js_string \<Rightarrow> js_string" where
  "chat_prompt msg =
     js ''You are an AI medical assistant. Your role is to:\<newline>'' @
     js ''1. Ask relevant questions about symptoms\<newline>'' @
     js ''2. Provide preliminary analysis\<newline>'' @
     js ''3. Recommend appropriate medications and treatments\<newline>'' @
     js ''4. Give recovery procedures and lifestyle advice\<newline>'' @
     js ''5. Always remind users to seek professional medical help for serious conditions\<newline>'' @
     js ''\<newline>'' @
     js ''User message: '' @ msg @ js ''\<newline>'' @
     js ''\<newline>'' @
     js ''Please respond in a professional, caring manner.''"

text \<open>The body of the \<^verbatim>\<open>try\<close> block of \<open>sendMessage\<close>.\<close>

definition sendMessage_try :: "chat_env \<Rightarrow> js_string \<Rightarrow> Message call" where
  "sendMessage_try env msg =
     (let prompt = chat_prompt msg in
      \<lparr>sent = [Prompt prompt],
       outcome =
         (case response_text (generateContent env (Prompt prompt)) of
            Pending \<Rightarrow> Pending
          | Rejected e \<Rightarrow> Rejected e
          | Fulfilled text \<Rightarrow>
              Fulfilled \<lparr>id = Number_toString (Date_now env), role = Assistant,
                          content = trim text, timestamp = new_Date env\<rparr>)\<rparr>)"

text \<open>The \<^verbatim>\<open>catch\<close> clause wraps whatever was thrown.\<close>

definition sendMessage :: "chat_env \<Rightarrow> js_string \<Rightarrow> Message call" where
  "sendMessage env msg =
     (let c = sendMessage_try env msg in
      case outcome c of
        Rejected e \<Rightarrow> c\<lparr>outcome := Rejected (Error (js ''Failed to get AI response: '' @ message e))\<rparr>
      | Pending \<Rightarrow> c
      | Fulfilled m \<Rightarrow> c)"

subsection \<open>Image analysis adapter\<close>

record File =
  file_name :: js_string
  file_type :: js_string

text \<open>
  \<^verbatim>\<open>readAsDataURL\<close> ends in one of two ways, and the host delivers the events of
  the File API for it: the result is set before \<^verbatim>\<open>load\<close>, it is \<^verbatim>\<open>null\<close> after a
  failure, and \<^verbatim>\<open>loadend\<close> comes last in both.
\<close>

datatype read_outcome = Loaded js_string | ReadError

datatype reader_event = LoadStart | Progress | Load js_string | ReadFailure | LoadEnd

definition reader_events :: "read_outcome \<Rightarrow> reader_event list" where
  "reader_events r =
     (case r of
        Loaded d \<Rightarrow> [LoadStart, Progress, Load d, LoadEnd]
      | ReadError \<Rightarrow> [LoadStart, ReadFailure, LoadEnd])"

text \<open>
  The reader and the promise built around it at lines 75 to 79. The executor takes
  \<^verbatim>\<open>resolve\<close> only and registers the one handler \<^verbatim>\<open>onloadend\<close>, which resolves with
  \<^verbatim>\<open>reader.result\<close>; the other events only change the reader.
\<close>

record reader =
  reader_result :: "js_string option"
  inner :: "(js_string option, js_error) promise"

fun reader_step :: "reader_event \<Rightarrow> reader \<Rightarrow> reader" where
  "reader_step LoadStart r = r"
| "reader_step Progress r = r"
| "reader_step (Load d) r = r\<lparr>reader_result := Some d\<rparr>"
| "reader_step ReadFailure r = r\<lparr>reader_result := None\<rparr>"
| "reader_step LoadEnd r = r\<lparr>inner := resolve (reader_result r) (inner r)\<rparr>"

definition read_file :: "read_outcome \<Rightarrow> reader" where
  "read_file r = fold reader_step (reader_events r) \<lparr>reader_result = None, inner = Pending\<rparr>"

text \<open>
  \<^verbatim>\<open>data.split(',')\<close> cuts the string at every separator; \<^verbatim>\<open>[1]\<close> reads the second
  piece and is \<^verbatim>\<open>undefined\<close> when there is none.
\<close>

fun String_split :: "16 word \<Rightarrow> js_string \<Rightarrow> js_string list" where
  "String_split sep [] = [[]]"
| "String_split sep (c # cs) =
     (if c = sep then [] # String_split sep cs
      else (case String_split sep cs of [] \<Rightarrow> [[c]] | w # ws \<Rightarrow> (c # w) # ws))"

fun element_at :: "'a list \<Rightarrow> nat \<Rightarrow> 'a option" where
  "element_at [] i = None"
| "element_at (x # xs) 0 = Some x"
| "element_at (x # xs) (Suc i) = element_at xs i"

definition comma :: "16 word" where
  "comma = 0x002C"

definition image_prompt :: js_string where
  "image_prompt =
     js ''You are a medical professional analyzing this medical image. Please provide:\<newline>'' @
     js ''1. A detailed analysis of what you observe\<newline>'' @
     js ''2. Any potential abnormalities or concerns\<newline>'' @
     js ''3. Recommendations for follow-up\<newline>'' @
     js ''4. Important notes for the patient\<newline>'' @
     js ''\<newline>'' @
     js ''Please be thorough but explain in terms a patient can understand.''"

text \<open>
  What one call of \<open>analyzeImage\<close> meets: the service, how the read ends, and the text
  the engine gives the \<^verbatim>\<open>TypeError\<close> of \<^verbatim>\<open>null.split\<close>.
\<close>

record image_env = service_env +
  FileReader_outcome :: read_outcome
  null_split_message :: js_string

definition image_request :: "js_string \<Rightarrow> File \<Rightarrow> gen_request" where
  "image_request d file =
     (let imageData = \<lparr>data = element_at (String_split comma d) 1, mimeType = file_type file\<rparr>
      in Parts [TextPart image_prompt, InlinePart imageData])"

definition analyzeImage_try :: "image_env \<Rightarrow> File \<Rightarrow> js_string call" where
  "analyzeImage_try env file =
     (case inner (read_file (FileReader_outcome env)) of
        Pending \<Rightarrow> \<lparr>sent = [], outcome = Pending\<rparr>
      | Rejected e \<Rightarrow> \<lparr>sent = [], outcome = Rejected e\<rparr>
      | Fulfilled None \<Rightarrow> \<lparr>sent = [], outcome = Rejected (TypeError (null_split_message env))\<rparr>
      | Fulfilled (Some d) \<Rightarrow>
          \<lparr>sent = [image_request d file],
           outcome = response_text (generateContent env (image_request d file))\<rparr>)"

definition analyzeImage :: "image_env \<Rightarrow> File \<Rightarrow> js_string call" where
  "analyzeImage env file =
     (let c = analyzeImage_try env file in
      case outcome c of
        Rejected e \<Rightarrow>
          c\<lparr>outcome := Rejected (Error (js ''Failed to analyze medical image: '' @ message e))\<rparr>
      | Pending \<Rightarrow> c
      | Fulfilled t \<Rightarrow> c)"

subsection \<open>Voice adapter\<close>

text \<open>
  The host: \<^verbatim>\<open>window\<close> is undefined or an object that may hold the constructor
  \<^verbatim>\<open>webkitSpeechRecognition\<close> and the property \<^verbatim>\<open>speechSynthesis\<close>. Calling
  \<^verbatim>\<open>new\<close> on a missing constructor raises a \<^verbatim>\<open>TypeError\<close> with the engine's text.
\<close>

datatype SpeechRecognition = SpeechRecognition

datatype SpeechSynthesis = SpeechSynthesis

record window =
  webkitSpeechRecognition :: "SpeechRecognition option"
  speechSynthesis :: "SpeechSynthesis js_ref"

record host =
  window :: "window option"
  not_a_constructor_message :: js_string

record voiceService =
  recognition :: "SpeechRecognition js_ref"
  synthesis :: "SpeechSynthesis js_ref"

text \<open>
  The object literal of lines 124 to 126, evaluated once when the module loads; the
  properties are evaluated in order, so a throw in the first leaves no object.
\<close>

definition new_voiceService :: "host \<Rightarrow> js_error + voiceService" where
  "new_voiceService h =
     (case window h of
        None \<Rightarrow> Inr \<lparr>recognition = JsNull, synthesis = JsNull\<rparr>
      | Some w \<Rightarrow>
          (case webkitSpeechRecognition w of
             None \<Rightarrow> Inl (TypeError (not_a_constructor_message h))
           | Some r \<Rightarrow> Inr \<lparr>recognition = JsObject r, synthesis = speechSynthesis w\<rparr>))"

text \<open>
  A value a voice promise is rejected with: a string, or the error event of the
  utterance with its error code.
\<close>

datatype rejection = Text js_string | SpeechErrorEvent js_string

text \<open>
  \<open>startListening\<close>: the promise, the handlers set on the recognition object and the
  number of sessions started.
\<close>

record listening =
  heard :: "(js_string, rejection) promise"
  onresult :: bool
  recognition_onerror :: bool
  sessions_started :: nat

definition listening_init :: listening where
  "listening_init = \<lparr>heard = Pending, onresult = False, recognition_onerror = False,
     sessions_started = 0\<rparr>"

definition startListening :: "voiceService \<Rightarrow> listening" where
  "startListening svc =
     (if falsy_ref (recognition svc)
      then listening_init\<lparr>heard := reject (Text (js ''Speech recognition not supported'')) Pending\<rparr>
      else
        (let s1 = listening_init\<lparr>onresult := True\<rparr>;
             s2 = s1\<lparr>recognition_onerror := True\<rparr>
         in s2\<lparr>sessions_started := Suc (sessions_started s2)\<rparr>))"

datatype recognition_event = ResultEvent js_string | RecognitionError js_string

fun recognition_deliver :: "recognition_event \<Rightarrow> listening \<Rightarrow> listening" where
  "recognition_deliver (ResultEvent transcript) s =
     (if onresult s then s\<lparr>heard := resolve transcript (heard s)\<rparr> else s)"
| "recognition_deliver (RecognitionError err) s =
     (if recognition_onerror s then s\<lparr>heard := reject (Text err) (heard s)\<rparr> else s)"

text \<open>
  \<open>speak\<close>: the promise, the handlers of the utterance, the delay of the timer while it
  is armed, and the utterances handed to the synthesis engine. \<^verbatim>\<open>onend\<close> is assigned
  twice; the two handlers differ in \<^verbatim>\<open>clearTimeout\<close>. The constructor of the utterance
  and the calls \<^verbatim>\<open>recognition.start()\<close> and \<^verbatim>\<open>synthesis.speak()\<close> of the browser are taken
  to return normally.
\<close>

datatype onend_handler = FirstOnEnd | SecondOnEnd

record speaking =
  spoken :: "(unit, rejection) promise"
  onend :: "onend_handler option"
  onerror :: bool
  timeout :: "nat option"
  queue :: "js_string list"

definition speaking_init :: speaking where
  "speaking_init = \<lparr>spoken = Pending, onend = None, onerror = False, timeout = None, queue = []\<rparr>"

definition speak :: "voiceService \<Rightarrow> js_string \<Rightarrow> speaking" where
  "speak svc text =
     (if falsy_ref (synthesis svc)
      then speaking_init\<lparr>spoken := reject (Text (js ''Speech synthesis not supported'')) Pending\<rparr>
      else
        (let s1 = speaking_init\<lparr>onend := Some FirstOnEnd\<rparr>;
             s2 = s1\<lparr>onerror := True\<rparr>;
             s3 = s2\<lparr>timeout := Some 10000\<rparr>;
             s4 = s3\<lparr>onend := Some SecondOnEnd\<rparr>
         in s4\<lparr>queue := queue s4 @ [text]\<rparr>))"

text \<open>
  What the event loop can deliver to a call of \<open>speak\<close>: the two events of the utterance
  and the expiry of the timer. Each runs the callback registered for it, if any; a
  cleared or expired timer has none.
\<close>

datatype loop_event = UtteranceEnd | UtteranceError js_string | TimerExpired

fun deliver :: "loop_event \<Rightarrow> speaking \<Rightarrow> speaking" where
  "deliver UtteranceEnd s =
     (case onend s of
        None \<Rightarrow> s
      | Some FirstOnEnd \<Rightarrow> s\<lparr>spoken := resolve () (spoken s)\<rparr>
      | Some SecondOnEnd \<Rightarrow> (s\<lparr>timeout := None\<rparr>)\<lparr>spoken := resolve () (spoken s)\<rparr>)"
| "deliver (UtteranceError e) s =
     (if onerror s then s\<lparr>spoken := reject (SpeechErrorEvent e) (spoken s)\<rparr> else s)"
| "deliver TimerExpired s =
     (case timeout s of
        None \<Rightarrow> s
      | Some d \<Rightarrow> (s\<lparr>timeout := None\<rparr>)\<lparr>spoken := resolve () (spoken s)\<rparr>)"

text \<open>
  Logical time, in milliseconds since the call. The synthesis engine fires its events
  at times of its choosing; the timer callback runs when its delay has passed. Where an
  engine event and the timer fall on the same millisecond, \<open>timer_first\<close> says which
  the loop takes first. \<open>run_until\<close> is the state at the horizon \<open>h\<close>.
\<close>

datatype utterance_event = EndEvent | ErrorEvent js_string

fun as_loop_event :: "utterance_event \<Rightarrow> loop_event" where
  "as_loop_event EndEvent = UtteranceEnd"
| "as_loop_event (ErrorEvent e) = UtteranceError e"

definition timer_due :: "bool \<Rightarrow> nat \<Rightarrow> speaking \<Rightarrow> bool" where
  "timer_due inclusive t s =
     (case timeout s of None \<Rightarrow> False | Some d \<Rightarrow> if inclusive then d \<le> t else d < t)"

definition expire :: "bool \<Rightarrow> nat \<Rightarrow> speaking \<Rightarrow> speaking" where
  "expire inclusive t s = (if timer_due inclusive t s then deliver TimerExpired s else s)"

fun run_until :: "bool \<Rightarrow> nat \<Rightarrow> (nat \<times> utterance_event) list \<Rightarrow> speaking \<Rightarrow> speaking" where
  "run_until timer_first h [] s = expire True h s"
| "run_until timer_first h ((t, e) # es) s =
     (if h < t then expire True h s
      else run_until timer_first h es (deliver (as_loop_event e) (expire timer_first t s)))"

subsection \<open>Module initialisation\<close>

text \<open>
  \<^verbatim>\<open>import.meta.env\<close> maps the names of the environment values to strings; a name
  that is not set reads as \<^verbatim>\<open>undefined\<close>.
\<close>

type_synonym import_meta_env = "string \<rightharpoonup> js_string"

definition falsy :: "js_string option \<Rightarrow> bool" where
  "falsy v = (case v of None \<Rightarrow> True | Some s \<Rightarrow> falsy_string s)"

text \<open>
  Loading \<^verbatim>\<open>aiService.ts\<close>: the key check of lines 4 to 8, the client of the
  generative service built from the key, then the voice service object.
\<close>

record aiService =
  genAI :: js_string
  voice :: voiceService

definition aiService_load :: "import_meta_env \<Rightarrow> host \<Rightarrow> js_error + aiService" where
  "aiService_load env h =
     (case env ''VITE_GEMINI_API_KEY'' of
        None \<Rightarrow> Inl (Error (js ''Gemini API key is required''))
      | Some apiKey \<Rightarrow>
          if falsy_string apiKey then Inl (Error (js ''Gemini API key is required''))
          else
            (case new_voiceService h of
               Inl e \<Rightarrow> Inl e
             | Inr v \<Rightarrow> Inr \<lparr>genAI = apiKey, voice = v\<rparr>))"

text \<open>
  Loading the storage configuration module: the six values are read into the
  configuration object as they are and handed to the client of the remote store, which
  is external and may throw.
\<close>

record firebase_config =
  apiKey :: "js_string option"
  authDomain :: "js_string option"
  projectId :: "js_string option"
  storageBucket :: "js_string option"
  messagingSenderId :: "js_string option"
  appId :: "js_string option"

definition firebaseConfig :: "import_meta_env \<Rightarrow> firebase_config" where
  "firebaseConfig env =
     \<lparr>apiKey = env ''VITE_FIREBASE_API_KEY'',
      authDomain = env ''VITE_FIREBASE_AUTH_DOMAIN'',
      projectId = env ''VITE_FIREBASE_PROJECT_ID'',
      storageBucket = env ''VITE_FIREBASE_STORAGE_BUCKET'',
      messagingSenderId = env ''VITE_FIREBASE_MESSAGING_SENDER_ID'',
      appId = env ''VITE_FIREBASE_APP_ID''\<rparr>"

record ('app, 'db, 'st) firebase_client =
  initializeApp :: "firebase_config \<Rightarrow> js_error + 'app"
  getFirestore :: "'app \<Rightarrow> js_error + 'db"
  getStorage :: "'app \<Rightarrow> js_error + 'st"

record ('app, 'db, 'st) firebase =
  app :: 'app
  db :: 'db
  storage :: 'st

definition firebase_load ::
  "('app, 'db, 'st) firebase_client \<Rightarrow> import_meta_env \<Rightarrow> js_error + ('app, 'db, 'st) firebase" where
  "firebase_load client env =
     (case initializeApp client (firebaseConfig env) of
        Inl e \<Rightarrow> Inl e
      | Inr a \<Rightarrow>
          (case getFirestore client a of
             Inl e \<Rightarrow> Inl e
           | Inr d \<Rightarrow>
               (case getStorage client a of
                  Inl e \<Rightarrow> Inl e
                | Inr st \<Rightarrow> Inr \<lparr>app = a, db = d, storage = st\<rparr>)))"

subsection \<open>Example services\<close>

text \<open>
  Services used to run the adapters on concrete inputs: one that answers every request
  with the same text, one that throws, and one that never answers.
\<close>

definition answering :: "js_string \<Rightarrow> gen_service" where
  "answering t req = Returns (Inr t)"

definition failing :: "js_error \<Rightarrow> gen_service" where
  "failing e req = Throws e"

definition silent :: gen_service where
  "silent req = Never"

text \<open>
  A client of the remote store that accepts every configuration: the application handle
  it returns is the configuration it was given.
\<close>

definition accepting_client :: "(firebase_config, unit, unit) firebase_client" where
  "accepting_client =
     \<lparr>initializeApp = (\<lambda>config. Inr config), getFirestore = (\<lambda>a. Inr ()),
      getStorage = (\<lambda>a. Inr ())\<rparr>"

section \<open>Properties\<close>

subsection \<open>Strings and numbers\<close>

lemma unat_digit_char: "d < 10 \<Longrightarrow> unat (digit_char d) = 48 + d"
proof -
  assume d: "d < 10"
  have "unat (of_nat (48 + d) :: 16 word) = (48 + d) mod 2 ^ LENGTH(16)"
    by (rule unat_of_nat)
  also have "\<dots> = 48 + d" using d by simp
  finally show ?thesis by (simp only: digit_char_def)
qed

lemma digit_char_inj: "a < 10 \<Longrightarrow> b < 10 \<Longrightarrow> digit_char a = digit_char b \<Longrightarrow> a = b"
proof -
  assume a: "a < 10" and b: "b < 10" and eq: "digit_char a = digit_char b"
  from eq have "unat (digit_char a) = unat (digit_char b)" by simp
  then show "a = b" using a b by (simp add: unat_digit_char)
qed

lemma digit_char_not_minus: "d < 10 \<Longrightarrow> digit_char d \<noteq> 0x002D"
proof
  assume d: "d < 10" and eq: "digit_char d = 0x002D"
  from eq have "unat (digit_char d) = unat (0x002D :: 16 word)" by simp
  then show False using d by (simp add: unat_digit_char)
qed

lemma digits_not_Nil: "digits n \<noteq> []"
  by (subst digits.simps) simp

lemma hd_digits_not_minus: "hd (digits n) \<noteq> 0x002D"
proof (induction n rule: digits.induct)
  case (1 n)
  show ?case
  proof (cases "n < 10")
    case True
    then show ?thesis by (subst digits.simps) (simp add: digit_char_not_minus)
  next
    case False
    then have "hd (digits n) = hd (digits (n div 10))"
      by (subst digits.simps) (simp add: digits_not_Nil)
    with 1 False show ?thesis by simp
  qed
qed

lemma digits_inj: "digits m = digits n \<Longrightarrow> m = n"
proof (induction m arbitrary: n rule: digits.induct)
  case (1 m)
  show ?case
  proof (cases "m < 10")
    case mlt: True
    show ?thesis
    proof (cases "n < 10")
      case True
      from "1.prems" mlt True have "digit_char m = digit_char n"
        by (simp add: digits.simps)
      then show ?thesis using mlt True by (rule_tac digit_char_inj)
    next
      case False
      have "digits m = [digit_char m]" using mlt by (subst digits.simps) simp
      moreover have "digits n = digits (n div 10) @ [digit_char (n mod 10)]"
        using False by (subst digits.simps) simp
      ultimately show ?thesis using "1.prems" digits_not_Nil [of "n div 10"] by simp
    qed
  next
    case mge: False
    have m: "digits m = digits (m div 10) @ [digit_char (m mod 10)]"
      using mge by (subst digits.simps) simp
    show ?thesis
    proof (cases "n < 10")
      case True
      have "digits n = [digit_char n]" using True by (subst digits.simps) simp
      then show ?thesis using "1.prems" m digits_not_Nil [of "m div 10"] by simp
    next
      case False
      have n: "digits n = digits (n div 10) @ [digit_char (n mod 10)]"
        using False by (subst digits.simps) simp
      from "1.prems" m n have eq: "digits (m div 10) = digits (n div 10)"
        and last: "digit_char (m mod 10) = digit_char (n mod 10)" by simp_all
      from "1.IH" [OF mge eq] have "m div 10 = n div 10" .
      moreover from last have "m mod 10 = n mod 10" by (rule_tac digit_char_inj) simp_all
      ultimately show ?thesis by (metis div_mult_mod_eq)
    qed
  qed
qed

lemma Number_toString_inj: "Number_toString i = Number_toString j \<Longrightarrow> i = j"
proof -
  assume eq: "Number_toString i = Number_toString j"
  consider "i < 0" "j < 0" | "i < 0" "\<not> j < 0" | "\<not> i < 0" "j < 0" | "\<not> i < 0" "\<not> j < 0"
    by blast
  then show "i = j"
  proof cases
    case 1
    with eq have "nat (- i) = nat (- j)" by (simp add: Number_toString_def digits_inj)
    with 1 show ?thesis by simp
  next
    case 2
    with eq have "hd (digits (nat j)) = 0x002D" by (simp add: Number_toString_def) (metis list.sel(1))
    then show ?thesis using hd_digits_not_minus by blast
  next
    case 3
    with eq have "hd (digits (nat i)) = 0x002D" by (simp add: Number_toString_def)
    then show ?thesis using hd_digits_not_minus by blast
  next
    case 4
    with eq have "nat i = nat j" by (simp add: Number_toString_def digits_inj)
    with 4 show ?thesis by simp
  qed
qed

lemma trim_blank: "trim (js '' '') = []"
  by (simp add: trim_def js_def white_space_def)

lemma js_Nil: "js s = [] \<longleftrightarrow> s = []"
  by (simp add: js_def)

lemma Number_toString_1700000000000: "Number_toString 1700000000000 = js ''1700000000000''"
  by (simp add: Number_toString_def digits.simps digit_char_def js_def)

lemma Number_toString_1700000000042: "Number_toString 1700000000042 = js ''1700000000042''"
  by (simp add: Number_toString_def digits.simps digit_char_def js_def)

subsection \<open>Promises and service responses\<close>

lemma resolve_settled: "p \<noteq> Pending \<Longrightarrow> resolve v p = p"
  by (cases p) (simp_all add: resolve_def)

lemma reject_settled: "p \<noteq> Pending \<Longrightarrow> reject r p = p"
  by (cases p) (simp_all add: reject_def)

lemma resolve_not_Pending: "resolve v p \<noteq> Pending"
  by (cases p) (simp_all add: resolve_def)

lemma reject_not_Pending: "reject r p \<noteq> Pending"
  by (cases p) (simp_all add: reject_def)

lemma response_text_Fulfilled:
  "response_text r = Fulfilled t \<longleftrightarrow> r = Returns (Inr t) \<and> t \<noteq> []"
  by (auto simp: response_text_def falsy_string_def split: awaited.splits sum.splits)

lemma message_Error: "message (Error m) = m"
  by (simp add: Error_def)

lemma message_TypeError: "message (TypeError m) = m"
  by (simp add: TypeError_def)

lemma read_file_inner:
  "inner (read_file r) = Fulfilled (case r of Loaded d \<Rightarrow> Some d | ReadError \<Rightarrow> None)"
  by (cases r) (simp_all add: read_file_def reader_events_def resolve_def)

lemma reader_step_not_Rejected:
  "inner r \<noteq> Rejected e \<Longrightarrow> inner (reader_step ev r) \<noteq> Rejected e"
  by (cases ev) (auto simp: resolve_def split: promise.splits)

lemma fold_reader_step_not_Rejected:
  "inner r \<noteq> Rejected e \<Longrightarrow> inner (fold reader_step evs r) \<noteq> Rejected e"
proof (induction evs arbitrary: r)
  case Nil
  then show ?case by simp
next
  case (Cons ev evs)
  from Cons.prems have "inner (reader_step ev r) \<noteq> Rejected e"
    by (rule reader_step_not_Rejected)
  then show ?case using Cons.IH by simp
qed

lemma String_split_unfold:
  "String_split sep d =
     takeWhile (\<lambda>c. c \<noteq> sep) d #
       (if sep \<in> set d then String_split sep (tl (dropWhile (\<lambda>c. c \<noteq> sep) d)) else [])"
proof (induction d)
  case Nil
  show ?case by simp
next
  case (Cons c cs)
  show ?case
  proof (cases "c = sep")
    case True
    then show ?thesis by simp
  next
    case False
    then show ?thesis by (subst String_split.simps) (simp add: Cons.IH)
  qed
qed

lemma element_at_1_String_split:
  "element_at (String_split sep d) 1 =
     (if sep \<in> set d
      then Some (takeWhile (\<lambda>c. c \<noteq> sep) (tl (dropWhile (\<lambda>c. c \<noteq> sep) d)))
      else None)"
proof (cases "sep \<in> set d")
  case True
  have "String_split sep d =
      takeWhile (\<lambda>c. c \<noteq> sep) d # String_split sep (tl (dropWhile (\<lambda>c. c \<noteq> sep) d))"
    using True by (subst String_split_unfold) simp
  moreover have "element_at (String_split sep xs) 0 = Some (takeWhile (\<lambda>c. c \<noteq> sep) xs)" for xs
    by (subst String_split_unfold) simp
  ultimately show ?thesis using True by simp
next
  case False
  have "String_split sep d = [takeWhile (\<lambda>c. c \<noteq> sep) d]"
    using False by (subst String_split_unfold) simp
  then show ?thesis using False by simp
qed

lemma single_separator_rest:
  "count_list d sep = 1 \<Longrightarrow> sep \<notin> set (tl (dropWhile (\<lambda>c. c \<noteq> sep) d))"
proof (induction d)
  case Nil
  then show ?case by simp
next
  case (Cons c cs)
  show ?case
  proof (cases "c = sep")
    case True
    with Cons.prems have "count_list cs sep = 0" by simp
    then have "sep \<notin> set cs" by (simp add: count_list_0_iff)
    with True show ?thesis by simp
  next
    case False
    with Cons show ?thesis by simp
  qed
qed

lemma single_separator_in: "count_list d sep = 1 \<Longrightarrow> sep \<in> set d"
  by (metis count_list_0_iff zero_neq_one)

subsection \<open>Chat adapter\<close>

lemma sent_sendMessage: "sent (sendMessage env msg) = [Prompt (chat_prompt msg)]"
  by (simp add: sendMessage_def sendMessage_try_def Let_def split: promise.splits)

lemma outcome_sendMessage:
  "outcome (sendMessage env msg) =
     (case response_text (generateContent env (Prompt (chat_prompt msg))) of
        Pending \<Rightarrow> Pending
      | Rejected e \<Rightarrow> Rejected (Error (js ''Failed to get AI response: '' @ message e))
      | Fulfilled text \<Rightarrow>
          Fulfilled \<lparr>id = Number_toString (Date_now env), role = Assistant,
                      content = trim text, timestamp = new_Date env\<rparr>)"
  by (simp add: sendMessage_def sendMessage_try_def Let_def split: promise.splits)

lemma sendMessage_Fulfilled:
  assumes "outcome (sendMessage env msg) = Fulfilled m"
  shows "\<exists>t. generateContent env (Prompt (chat_prompt msg)) = Returns (Inr t) \<and> t \<noteq> [] \<and>
           m = \<lparr>id = Number_toString (Date_now env), role = Assistant,
                 content = trim t, timestamp = new_Date env\<rparr>"
proof (cases "response_text (generateContent env (Prompt (chat_prompt msg)))")
  case Pending
  with assms show ?thesis by (simp add: outcome_sendMessage)
next
  case (Fulfilled t)
  then have "generateContent env (Prompt (chat_prompt msg)) = Returns (Inr t) \<and> t \<noteq> []"
    by (simp add: response_text_Fulfilled)
  moreover from assms Fulfilled
  have "m = \<lparr>id = Number_toString (Date_now env), role = Assistant,
              content = trim t, timestamp = new_Date env\<rparr>"
    by (simp add: outcome_sendMessage)
  ultimately show ?thesis by blast
next
  case (Rejected e)
  with assms show ?thesis by (simp add: outcome_sendMessage)
qed

text \<open>
  C1. The claim: for every non-empty input, \<open>sendMessage\<close> resolves with a message of
  non-empty content and role assistant, or rejects; it never resolves with the empty
  string as content. The code tests the response for emptiness before it trims it. When
  the service answers the message "I have a headache" with a single space, the test
  passes and the call resolves with a message whose content is the empty string.
\<close>

theorem sendMessage_blank_response_resolves_empty:
  "outcome (sendMessage
      \<lparr>generateContent = answering (js '' ''), Date_now = 1700000000000,
       new_Date = 1700000000000\<rparr>
      (js ''I have a headache'')) =
   Fulfilled \<lparr>id = js ''1700000000000'', role = Assistant, content = [],
              timestamp = 1700000000000\<rparr>"
  by (simp add: outcome_sendMessage answering_def response_text_def falsy_string_def js_Nil
        trim_blank Number_toString_1700000000000)

text \<open>
  C6. The claim: two concurrent calls of \<open>sendMessage\<close> with different inputs give
  messages with distinct ids, each content coming from its own response only. The id is
  the decimal rendering of the clock, so two calls whose responses arrive within the
  same millisecond carry the same id. Here two calls with different messages and
  different answers both complete at clock reading 1700000000000.
\<close>

theorem sendMessage_same_millisecond_same_id:
  "outcome (sendMessage
      \<lparr>generateContent = answering (js ''Rest and drink water.''), Date_now = 1700000000000,
       new_Date = 1700000000000\<rparr>
      (js ''I have a fever'')) =
   Fulfilled \<lparr>id = js ''1700000000000'', role = Assistant,
              content = js ''Rest and drink water.'', timestamp = 1700000000000\<rparr> \<and>
   outcome (sendMessage
      \<lparr>generateContent = answering (js ''Please see a doctor.''), Date_now = 1700000000000,
       new_Date = 1700000000000\<rparr>
      (js ''I have a cough'')) =
   Fulfilled \<lparr>id = js ''1700000000000'', role = Assistant,
              content = js ''Please see a doctor.'', timestamp = 1700000000000\<rparr>"
  by (simp add: outcome_sendMessage answering_def response_text_def falsy_string_def
        Number_toString_1700000000000)
     (simp add: trim_def js_def white_space_def)

text \<open>
  C6, as amended. Two calls of \<open>sendMessage\<close> that both resolve are independent in
  content: each submits the prompt built from its own message only, and each content is
  the trimmed text of the response to that call's own request. Each id is the decimal
  rendering of the clock reading at that call's completion, so the two ids are equal
  exactly when the two clock readings are equal, and distinct otherwise.
\<close>

theorem sendMessage_calls_independent:
  assumes "outcome (sendMessage env1 msg1) = Fulfilled m1"
    and "outcome (sendMessage env2 msg2) = Fulfilled m2"
  shows "sent (sendMessage env1 msg1) = [Prompt (chat_prompt msg1)] \<and>
         sent (sendMessage env2 msg2) = [Prompt (chat_prompt msg2)] \<and>
         (\<exists>t1. generateContent env1 (Prompt (chat_prompt msg1)) = Returns (Inr t1) \<and>
               content m1 = trim t1) \<and>
         (\<exists>t2. generateContent env2 (Prompt (chat_prompt msg2)) = Returns (Inr t2) \<and>
               content m2 = trim t2) \<and>
         id m1 = Number_toString (Date_now env1) \<and>
         id m2 = Number_toString (Date_now env2) \<and>
         (id m1 = id m2 \<longleftrightarrow> Date_now env1 = Date_now env2)"
proof -
  from sendMessage_Fulfilled [OF assms(1)] obtain t1 where
    t1: "generateContent env1 (Prompt (chat_prompt msg1)) = Returns (Inr t1)"
    and m1: "m1 = \<lparr>id = Number_toString (Date_now env1), role = Assistant,
                    content = trim t1, timestamp = new_Date env1\<rparr>"
    by blast
  from sendMessage_Fulfilled [OF assms(2)] obtain t2 where
    t2: "generateContent env2 (Prompt (chat_prompt msg2)) = Returns (Inr t2)"
    and m2: "m2 = \<lparr>id = Number_toString (Date_now env2), role = Assistant,
                    content = trim t2, timestamp = new_Date env2\<rparr>"
    by blast
  have ids: "id m1 = Number_toString (Date_now env1)" "id m2 = Number_toString (Date_now env2)"
    by (simp_all add: m1 m2)
  have "id m1 = id m2 \<longleftrightarrow> Date_now env1 = Date_now env2"
    using Number_toString_inj [of "Date_now env1" "Date_now env2"] by (auto simp: ids)
  moreover have "content m1 = trim t1" "content m2 = trim t2"
    by (simp_all add: m1 m2)
  ultimately show ?thesis using t1 t2 ids by (simp add: sent_sendMessage)
qed

theorem sendMessage_calls_independent_witness:
  "outcome (sendMessage
      \<lparr>generateContent = answering (js ''Rest and drink water.''), Date_now = 1700000000000,
       new_Date = 1700000000000\<rparr>
      (js ''I have a fever'')) =
     Fulfilled \<lparr>id = js ''1700000000000'', role = Assistant,
                content = js ''Rest and drink water.'', timestamp = 1700000000000\<rparr> \<and>
   outcome (sendMessage
      \<lparr>generateContent = answering (js ''Please see a doctor.''), Date_now = 1700000000042,
       new_Date = 1700000000042\<rparr>
      (js ''I have a cough'')) =
     Fulfilled \<lparr>id = js ''1700000000042'', role = Assistant,
                content = js ''Please see a doctor.'', timestamp = 1700000000042\<rparr> \<and>
   sent (sendMessage
      \<lparr>generateContent = answering (js ''Rest and drink water.''), Date_now = 1700000000000,
       new_Date = 1700000000000\<rparr>
      (js ''I have a fever'')) = [Prompt (chat_prompt (js ''I have a fever''))] \<and>
   js ''1700000000000'' \<noteq> js ''1700000000042''"
proof -
  let ?env1 = "\<lparr>generateContent = answering (js ''Rest and drink water.''),
      Date_now = 1700000000000, new_Date = 1700000000000\<rparr>"
  let ?env2 = "\<lparr>generateContent = answering (js ''Please see a doctor.''),
      Date_now = 1700000000042, new_Date = 1700000000042\<rparr>"
  let ?m1 = "\<lparr>id = js ''1700000000000'', role = Assistant,
      content = js ''Rest and drink water.'', timestamp = 1700000000000\<rparr>"
  let ?m2 = "\<lparr>id = js ''1700000000042'', role = Assistant,
      content = js ''Please see a doctor.'', timestamp = 1700000000042\<rparr>"
  have trims: "trim (js ''Rest and drink water.'') = js ''Rest and drink water.''"
    "trim (js ''Please see a doctor.'') = js ''Please see a doctor.''"
    by (simp_all add: trim_def js_def white_space_def)
  have h1: "outcome (sendMessage ?env1 (js ''I have a fever'')) = Fulfilled ?m1"
    by (simp add: outcome_sendMessage answering_def response_text_def falsy_string_def
          js_Nil Number_toString_1700000000000 trims)
  have h2: "outcome (sendMessage ?env2 (js ''I have a cough'')) = Fulfilled ?m2"
    by (simp add: outcome_sendMessage answering_def response_text_def falsy_string_def
          js_Nil Number_toString_1700000000042 trims)
  from sendMessage_calls_independent [OF h1 h2]
  have own: "sent (sendMessage ?env1 (js ''I have a fever'')) =
          [Prompt (chat_prompt (js ''I have a fever''))]"
    and "id ?m1 = id ?m2 \<longleftrightarrow> Date_now ?env1 = Date_now ?env2"
    by blast+
  then have "js ''1700000000000'' \<noteq> js ''1700000000042''" by simp
  with h1 h2 own show ?thesis by (intro conjI)
qed

subsection \<open>Image analysis adapter\<close>

lemma analyzeImage_try_Loaded:
  "FileReader_outcome env = Loaded d \<Longrightarrow>
   analyzeImage_try env file =
     \<lparr>sent = [image_request d file],
      outcome = response_text (generateContent env (image_request d file))\<rparr>"
  by (simp add: analyzeImage_try_def read_file_inner)

lemma analyzeImage_try_ReadError:
  "FileReader_outcome env = ReadError \<Longrightarrow>
   analyzeImage_try env file =
     \<lparr>sent = [], outcome = Rejected (TypeError (null_split_message env))\<rparr>"
  by (simp add: analyzeImage_try_def read_file_inner)

lemma sent_analyzeImage: "sent (analyzeImage env file) = sent (analyzeImage_try env file)"
  by (simp add: analyzeImage_def Let_def split: promise.splits)

lemma outcome_analyzeImage:
  "outcome (analyzeImage env file) =
     (case outcome (analyzeImage_try env file) of
        Rejected e \<Rightarrow> Rejected (Error (js ''Failed to analyze medical image: '' @ message e))
      | Pending \<Rightarrow> Pending
      | Fulfilled t \<Rightarrow> Fulfilled t)"
  by (simp add: analyzeImage_def Let_def split: promise.splits)

lemma image_request_data:
  "image_request d file =
     Parts [TextPart image_prompt,
            InlinePart \<lparr>data = (if comma \<in> set d
                                then Some (takeWhile (\<lambda>c. c \<noteq> comma) (tl (dropWhile (\<lambda>c. c \<noteq> comma) d)))
                                else None),
                        mimeType = file_type file\<rparr>]"
  by (simp only: image_request_def Let_def element_at_1_String_split)

text \<open>
  C2. Whenever \<open>analyzeImage\<close> settles, it resolves with a non-empty text or rejects with
  an error whose message starts with "Failed to analyze medical image: "; it never
  resolves with the empty text. The rejection covers the three causes: a failed read
  (the engine's error of \<^verbatim>\<open>null.split\<close>), an empty response, and a throw of the remote
  call or of \<^verbatim>\<open>response.text()\<close>. The promise stays pending only while the service
  never answers.
\<close>

theorem analyzeImage_text_or_AnalysisError:
  "(\<forall>t. outcome (analyzeImage env file) = Fulfilled t \<longrightarrow> t \<noteq> []) \<and>
   (\<forall>e. outcome (analyzeImage env file) = Rejected e \<longrightarrow>
      (\<exists>cause. e = Error (js ''Failed to analyze medical image: '' @ cause))) \<and>
   (FileReader_outcome env = ReadError \<longrightarrow>
      outcome (analyzeImage env file) =
        Rejected (Error (js ''Failed to analyze medical image: '' @ null_split_message env))) \<and>
   (\<forall>d. FileReader_outcome env = Loaded d \<longrightarrow>
      (generateContent env (image_request d file) = Returns (Inr []) \<longrightarrow>
         outcome (analyzeImage env file) =
           Rejected (Error (js ''Failed to analyze medical image: '' @ js ''Empty response from AI''))) \<and>
      (\<forall>e. generateContent env (image_request d file) = Throws e \<or>
            generateContent env (image_request d file) = Returns (Inl e) \<longrightarrow>
         outcome (analyzeImage env file) =
           Rejected (Error (js ''Failed to analyze medical image: '' @ message e))) \<and>
      (\<forall>t. generateContent env (image_request d file) = Returns (Inr t) \<and> t \<noteq> [] \<longrightarrow>
         outcome (analyzeImage env file) = Fulfilled t) \<and>
      (generateContent env (image_request d file) = Never \<longrightarrow>
         outcome (analyzeImage env file) = Pending))"
proof (cases "FileReader_outcome env")
  case (Loaded d)
  show ?thesis
    unfolding outcome_analyzeImage analyzeImage_try_Loaded [OF Loaded]
    by (auto simp: Loaded response_text_def falsy_string_def message_Error
          split: awaited.splits sum.splits)
next
  case ReadError
  show ?thesis
    unfolding outcome_analyzeImage analyzeImage_try_ReadError [OF ReadError]
    by (auto simp: ReadError message_TypeError)
qed

text \<open>
  The theorem at an empty response, a failed read, a failing service and a good answer.
\<close>

theorem analyzeImage_text_or_AnalysisError_witness:
  "outcome (analyzeImage
      \<lparr>generateContent = answering [],
       FileReader_outcome = Loaded (js ''data:image/png;base64,iVBORw0KGgo=''),
       null_split_message = js ''null has no properties''\<rparr>
      \<lparr>file_name = js ''scan.png'', file_type = js ''image/png''\<rparr>) =
     Rejected (Error (js ''Failed to analyze medical image: '' @ js ''Empty response from AI'')) \<and>
   outcome (analyzeImage
      \<lparr>generateContent = answering (js ''No abnormality seen.''),
       FileReader_outcome = ReadError,
       null_split_message = js ''null has no properties''\<rparr>
      \<lparr>file_name = js ''scan.png'', file_type = js ''image/png''\<rparr>) =
     Rejected (Error (js ''Failed to analyze medical image: '' @ js ''null has no properties'')) \<and>
   outcome (analyzeImage
      \<lparr>generateContent = failing (Error (js ''fetch failed'')),
       FileReader_outcome = Loaded (js ''data:image/png;base64,iVBORw0KGgo=''),
       null_split_message = js ''null has no properties''\<rparr>
      \<lparr>file_name = js ''scan.png'', file_type = js ''image/png''\<rparr>) =
     Rejected (Error (js ''Failed to analyze medical image: '' @ js ''fetch failed'')) \<and>
   outcome (analyzeImage
      \<lparr>generateContent = answering (js ''No abnormality seen.''),
       FileReader_outcome = Loaded (js ''data:image/png;base64,iVBORw0KGgo=''),
       null_split_message = js ''null has no properties''\<rparr>
      \<lparr>file_name = js ''scan.png'', file_type = js ''image/png''\<rparr>) =
     Fulfilled (js ''No abnormality seen.'') \<and>
   js ''No abnormality seen.'' \<noteq> []"
proof -
  let ?file = "\<lparr>file_name = js ''scan.png'', file_type = js ''image/png''\<rparr>"
  let ?url = "js ''data:image/png;base64,iVBORw0KGgo=''"
  let ?m = "js ''null has no properties''"
  let ?empty = "\<lparr>generateContent = answering [], FileReader_outcome = Loaded ?url,
      null_split_message = ?m\<rparr>"
  let ?unread = "\<lparr>generateContent = answering (js ''No abnormality seen.''),
      FileReader_outcome = ReadError, null_split_message = ?m\<rparr>"
  let ?down = "\<lparr>generateContent = failing (Error (js ''fetch failed'')),
      FileReader_outcome = Loaded ?url, null_split_message = ?m\<rparr>"
  let ?good = "\<lparr>generateContent = answering (js ''No abnormality seen.''),
      FileReader_outcome = Loaded ?url, null_split_message = ?m\<rparr>"
  have a: "outcome (analyzeImage ?empty ?file) =
      Rejected (Error (js ''Failed to analyze medical image: '' @ js ''Empty response from AI''))"
    using analyzeImage_text_or_AnalysisError [of ?empty ?file] by (simp add: answering_def)
  have b: "outcome (analyzeImage ?unread ?file) =
      Rejected (Error (js ''Failed to analyze medical image: '' @ ?m))"
    using analyzeImage_text_or_AnalysisError [of ?unread ?file] by simp
  have c: "outcome (analyzeImage ?down ?file) =
      Rejected (Error (js ''Failed to analyze medical image: '' @ js ''fetch failed''))"
    using analyzeImage_text_or_AnalysisError [of ?down ?file]
    by (simp add: failing_def message_Error)
  have d: "outcome (analyzeImage ?good ?file) = Fulfilled (js ''No abnormality seen.'')"
    using analyzeImage_text_or_AnalysisError [of ?good ?file]
    by (simp add: answering_def js_Nil)
  from d analyzeImage_text_or_AnalysisError [of ?good ?file]
  have e: "js ''No abnormality seen.'' \<noteq> []" by blast
  from a b c d e show ?thesis by blast
qed

text \<open>
  What \<open>analyzeImage\<close> submits. When the read yields a data URL, it is one request: the
  fixed instruction prompt with an inline payload whose MIME type is the type of the file
  and whose data is the second piece of \<^verbatim>\<open>data.split(',')\<close>. For a data URL with exactly
  one comma that piece is the whole substring after the comma, the base64 payload. When
  the read fails, nothing is submitted.
\<close>

lemma analyzeImage_submits:
  "(FileReader_outcome env = ReadError \<longrightarrow> sent (analyzeImage env file) = []) \<and>
   (\<forall>d. FileReader_outcome env = Loaded d \<longrightarrow>
      sent (analyzeImage env file) =
        [Parts [TextPart image_prompt,
                InlinePart
                  \<lparr>data =
                     (if comma \<in> set d
                      then Some (takeWhile (\<lambda>c. c \<noteq> comma)
                                  (tl (dropWhile (\<lambda>c. c \<noteq> comma) d)))
                      else None),
                   mimeType = file_type file\<rparr>]]) \<and>
   (\<forall>d. FileReader_outcome env = Loaded d \<and> count_list d comma = 1 \<longrightarrow>
      sent (analyzeImage env file) =
        [Parts [TextPart image_prompt,
                InlinePart \<lparr>data = Some (tl (dropWhile (\<lambda>c. c \<noteq> comma) d)),
                            mimeType = file_type file\<rparr>]])"
proof (intro conjI allI impI)
  assume "FileReader_outcome env = ReadError"
  then show "sent (analyzeImage env file) = []"
    by (simp add: sent_analyzeImage analyzeImage_try_ReadError)
next
  fix d
  assume "FileReader_outcome env = Loaded d"
  then show "sent (analyzeImage env file) =
      [Parts [TextPart image_prompt,
              InlinePart
                \<lparr>data =
                   (if comma \<in> set d
                    then Some (takeWhile (\<lambda>c. c \<noteq> comma)
                                (tl (dropWhile (\<lambda>c. c \<noteq> comma) d)))
                    else None),
                 mimeType = file_type file\<rparr>]]"
    by (simp only: sent_analyzeImage analyzeImage_try_Loaded image_request_data call.simps)
next
  fix d
  assume "FileReader_outcome env = Loaded d \<and> count_list d comma = 1"
  then have l: "FileReader_outcome env = Loaded d" and one: "count_list d comma = 1"
    by simp_all
  from one have "comma \<in> set d" by (rule single_separator_in)
  then have isin: "(comma \<in> set d) = True" by simp
  from one have "comma \<notin> set (tl (dropWhile (\<lambda>c. c \<noteq> comma) d))"
    by (rule single_separator_rest)
  then have "\<forall>c \<in> set (tl (dropWhile (\<lambda>c. c \<noteq> comma) d)). c \<noteq> comma"
    by blast
  then have whole: "takeWhile (\<lambda>c. c \<noteq> comma) (tl (dropWhile (\<lambda>c. c \<noteq> comma) d)) =
      tl (dropWhile (\<lambda>c. c \<noteq> comma) d)"
    by (rule takeWhile_eq_all_conv [THEN iffD2])
  show "sent (analyzeImage env file) =
      [Parts [TextPart image_prompt,
              InlinePart \<lparr>data = Some (tl (dropWhile (\<lambda>c. c \<noteq> comma) d)),
                          mimeType = file_type file\<rparr>]]"
    by (simp only: sent_analyzeImage analyzeImage_try_Loaded [OF l] image_request_data
          call.simps isin if_True whole)
qed

text \<open>
  C7. The claim: the data of the inline payload is the portion of the data URL after its
  prefix, the substring that follows the first comma. The code takes the second piece of
  \<^verbatim>\<open>data.split(',')\<close>, which ends at the next comma. A file of type
  \<^verbatim>\<open>image/png;x=a,b\<close> has a data URL with two commas, whether the reader writes the type
  as it is or with the parameter value quoted: the data submitted is then the piece
  between the two commas, which is neither the base64 payload \<^verbatim>\<open>QUJD\<close> nor the rest of
  the URL after the first comma.
\<close>

theorem analyzeImage_cuts_at_second_comma:
  "sent (analyzeImage
      \<lparr>generateContent = silent,
       FileReader_outcome = Loaded (js ''data:image/png;x=a,b;base64,QUJD''),
       null_split_message = js ''null has no properties''\<rparr>
      \<lparr>file_name = js ''scan.png'', file_type = js ''image/png;x=a,b''\<rparr>) =
     [Parts [TextPart image_prompt,
             InlinePart \<lparr>data = Some (js ''b;base64''),
                         mimeType = js ''image/png;x=a,b''\<rparr>]] \<and>
   sent (analyzeImage
      \<lparr>generateContent = silent,
       FileReader_outcome =
         Loaded (js ''data:image/png;x='' @ [0x0022] @ js ''a,b'' @ [0x0022] @
                 js '';base64,QUJD''),
       null_split_message = js ''null has no properties''\<rparr>
      \<lparr>file_name = js ''scan.png'', file_type = js ''image/png;x=a,b''\<rparr>) =
     [Parts [TextPart image_prompt,
             InlinePart \<lparr>data = Some (js ''b'' @ [0x0022] @ js '';base64''),
                         mimeType = js ''image/png;x=a,b''\<rparr>]] \<and>
   tl (dropWhile (\<lambda>c. c \<noteq> comma) (js ''data:image/png;x=a,b;base64,QUJD'')) =
     js ''b;base64,QUJD''"
  by (simp add: sent_analyzeImage analyzeImage_try_Loaded image_request_def)
     (simp add: js_def comma_def)

text \<open>
  C9. The inner promise of the file read has a resolve path only: the handler of
  \<^verbatim>\<open>loadend\<close> resolves it with the result of the reader, which is \<^verbatim>\<open>null\<close> after a
  failed read; no sequence of reader events rejects it. A failed read surfaces afterwards,
  as the \<^verbatim>\<open>TypeError\<close> of \<^verbatim>\<open>data.split\<close> inside the \<^verbatim>\<open>try\<close> block, which the
  \<^verbatim>\<open>catch\<close> clause wraps; nothing is sent to the service.
\<close>

theorem read_promise_only_resolves:
  "inner (read_file r) = Fulfilled (reader_result (read_file r)) \<and>
   reader_result (read_file ReadError) = None \<and>
   (\<forall>d. reader_result (read_file (Loaded d)) = Some d) \<and>
   (\<forall>events e. inner (fold reader_step events \<lparr>reader_result = None, inner = Pending\<rparr>) \<noteq>
      Rejected e) \<and>
   (FileReader_outcome env = ReadError \<longrightarrow>
      analyzeImage_try env file =
        \<lparr>sent = [], outcome = Rejected (TypeError (null_split_message env))\<rparr> \<and>
      analyzeImage env file =
        \<lparr>sent = [],
         outcome = Rejected (Error (js ''Failed to analyze medical image: '' @
                                      null_split_message env))\<rparr>)"
proof -
  have "inner (read_file r) = Fulfilled (reader_result (read_file r))"
    by (cases r) (simp_all add: read_file_def reader_events_def resolve_def)
  moreover have "reader_result (read_file ReadError) = None"
    by (simp add: read_file_def reader_events_def)
  moreover have "reader_result (read_file (Loaded d)) = Some d" for d
    by (simp add: read_file_def reader_events_def)
  moreover have "inner (fold reader_step events \<lparr>reader_result = None, inner = Pending\<rparr>) \<noteq>
      Rejected e" for events e
    by (rule fold_reader_step_not_Rejected) simp
  moreover have "analyzeImage env file =
      \<lparr>sent = [],
       outcome = Rejected (Error (js ''Failed to analyze medical image: '' @
                                    null_split_message env))\<rparr>"
    if "FileReader_outcome env = ReadError"
    by (simp add: analyzeImage_def analyzeImage_try_ReadError [OF that] message_TypeError)
  ultimately show ?thesis by (simp add: analyzeImage_try_ReadError)
qed

text \<open>The theorem at a failed read.\<close>

theorem read_promise_only_resolves_witness:
  "analyzeImage
      \<lparr>generateContent = answering (js ''No abnormality seen.''),
       FileReader_outcome = ReadError,
       null_split_message = js ''null has no properties''\<rparr>
      \<lparr>file_name = js ''scan.png'', file_type = js ''image/png''\<rparr> =
     \<lparr>sent = [],
      outcome = Rejected (Error (js ''Failed to analyze medical image: '' @
                                   js ''null has no properties''))\<rparr> \<and>
   inner (read_file ReadError) = Fulfilled None"
proof -
  let ?file = "\<lparr>file_name = js ''scan.png'', file_type = js ''image/png''\<rparr>"
  let ?unread = "\<lparr>generateContent = answering (js ''No abnormality seen.''),
      FileReader_outcome = ReadError, null_split_message = js ''null has no properties''\<rparr>"
  show ?thesis
    using read_promise_only_resolves [of ReadError ?unread ?file] by simp
qed

subsection \<open>Voice adapter\<close>

lemma speak_supported:
  "\<not> falsy_ref (synthesis svc) \<Longrightarrow>
   speak svc text =
     \<lparr>spoken = Pending, onend = Some SecondOnEnd, onerror = True, timeout = Some 10000,
      queue = [text]\<rparr>"
  by (simp add: speak_def speaking_init_def Let_def)

lemma speak_unsupported:
  "falsy_ref (synthesis svc) \<Longrightarrow>
   speak svc text =
     \<lparr>spoken = Rejected (Text (js ''Speech synthesis not supported'')), onend = None,
      onerror = False, timeout = None, queue = []\<rparr>"
  by (simp add: speak_def speaking_init_def reject_def)

lemma startListening_unsupported:
  "falsy_ref (recognition svc) \<Longrightarrow>
   startListening svc =
     \<lparr>heard = Rejected (Text (js ''Speech recognition not supported'')), onresult = False,
      recognition_onerror = False, sessions_started = 0\<rparr>"
  by (simp add: startListening_def listening_init_def reject_def)

lemma startListening_supported:
  "\<not> falsy_ref (recognition svc) \<Longrightarrow>
   startListening svc =
     \<lparr>heard = Pending, onresult = True, recognition_onerror = True, sessions_started = 1\<rparr>"
  by (simp add: startListening_def listening_init_def Let_def)

lemma deliver_settled: "spoken s \<noteq> Pending \<Longrightarrow> spoken (deliver ev s) = spoken s"
  by (cases ev) (simp_all add: resolve_settled reject_settled split: option.splits onend_handler.splits)

lemma fold_deliver_settled:
  "spoken s \<noteq> Pending \<Longrightarrow> spoken (fold deliver evs s) = spoken s"
proof (induction evs arbitrary: s)
  case Nil
  show ?case by simp
next
  case (Cons ev evs)
  from Cons.prems have step: "spoken (deliver ev s) = spoken s" by (rule deliver_settled)
  with Cons.prems have "spoken (deliver ev s) \<noteq> Pending" by simp
  then have "spoken (fold deliver evs (deliver ev s)) = spoken (deliver ev s)" by (rule Cons.IH)
  with step show ?case by simp
qed

lemma expire_settled: "spoken s \<noteq> Pending \<Longrightarrow> spoken (expire b t s) = spoken s"
  by (simp add: expire_def deliver_settled del: deliver.simps)

lemma run_until_settled:
  "spoken s \<noteq> Pending \<Longrightarrow> spoken (run_until tf h es s) = spoken s"
proof (induction es arbitrary: s)
  case Nil
  then show ?case by (simp add: expire_settled)
next
  case (Cons te es)
  obtain t e where te: "te = (t, e)" by (cases te)
  let ?s' = "deliver (as_loop_event e) (expire tf t s)"
  from Cons.prems have "spoken ?s' = spoken s"
    by (simp add: deliver_settled expire_settled)
  moreover from this Cons.prems have "spoken (run_until tf h es ?s') = spoken ?s'"
    by (intro Cons.IH) simp
  ultimately show ?case using Cons.prems by (simp add: te expire_settled)
qed

lemma deliver_armed:
  "(spoken s = Pending \<longrightarrow> timeout s = Some 10000) \<Longrightarrow>
   (spoken (deliver ev s) = Pending \<longrightarrow> timeout (deliver ev s) = Some 10000)"
  by (cases ev)
     (auto simp: resolve_not_Pending reject_not_Pending split: option.splits onend_handler.splits)

lemma expire_armed:
  "(spoken s = Pending \<longrightarrow> timeout s = Some 10000) \<Longrightarrow>
   (spoken (expire b t s) = Pending \<longrightarrow> timeout (expire b t s) = Some 10000)"
  unfolding expire_def using deliver_armed [of s TimerExpired] by simp

lemma expire_at_ceiling:
  assumes "spoken s = Pending \<longrightarrow> timeout s = Some 10000" and "10000 \<le> h"
  shows "spoken (expire True h s) \<noteq> Pending"
proof (cases "spoken s = Pending")
  case True
  with assms have "timeout s = Some 10000" by simp
  with assms(2) show ?thesis
    by (simp add: expire_def timer_due_def resolve_not_Pending)
next
  case False
  then show ?thesis by (simp add: expire_settled)
qed

lemma run_until_ceiling:
  "(spoken s = Pending \<longrightarrow> timeout s = Some 10000) \<Longrightarrow> 10000 \<le> h \<Longrightarrow>
   spoken (run_until tf h es s) \<noteq> Pending"
proof (induction es arbitrary: s)
  case Nil
  then show ?case by (simp add: expire_at_ceiling)
next
  case (Cons te es)
  obtain t e where te: "te = (t, e)" by (cases te)
  let ?s' = "deliver (as_loop_event e) (expire tf t s)"
  have "spoken ?s' = Pending \<longrightarrow> timeout ?s' = Some 10000"
    by (intro deliver_armed expire_armed Cons.prems)
  then have "spoken (run_until tf h es ?s') \<noteq> Pending"
    using Cons.prems(2) by (rule Cons.IH)
  then show ?case using Cons.prems by (simp add: te expire_at_ceiling)
qed

text \<open>
  On a voice service that has been built: when its recognition object is missing,
  \<open>startListening\<close> rejects at once with the string "Speech recognition not supported",
  with no handler set and no session started; when its synthesis object is missing,
  \<open>speak\<close> rejects at once with the string "Speech synthesis not supported", with no
  handler set, no timer armed and nothing queued. Both objects are missing in a host
  without \<^verbatim>\<open>window\<close>.
\<close>

lemma missing_capability_rejects_at_once:
  "(falsy_ref (recognition svc) \<longrightarrow>
      startListening svc =
        \<lparr>heard = Rejected (Text (js ''Speech recognition not supported'')), onresult = False,
         recognition_onerror = False, sessions_started = 0\<rparr>) \<and>
   (falsy_ref (synthesis svc) \<longrightarrow>
      speak svc text =
        \<lparr>spoken = Rejected (Text (js ''Speech synthesis not supported'')), onend = None,
         onerror = False, timeout = None, queue = []\<rparr>) \<and>
   (window h = None \<longrightarrow>
      new_voiceService h = Inr \<lparr>recognition = JsNull, synthesis = JsNull\<rparr>)"
proof (intro conjI impI)
  assume "falsy_ref (recognition svc)"
  then show "startListening svc =
      \<lparr>heard = Rejected (Text (js ''Speech recognition not supported'')), onresult = False,
       recognition_onerror = False, sessions_started = 0\<rparr>"
    by (rule startListening_unsupported)
next
  assume "falsy_ref (synthesis svc)"
  then show "speak svc text =
      \<lparr>spoken = Rejected (Text (js ''Speech synthesis not supported'')), onend = None,
       onerror = False, timeout = None, queue = []\<rparr>"
    by (rule speak_unsupported)
next
  assume "window h = None"
  then show "new_voiceService h = Inr \<lparr>recognition = JsNull, synthesis = JsNull\<rparr>"
    by (simp add: new_voiceService_def)
qed

text \<open>
  C3. The claim: in any host that lacks the speech capability, a call of
  \<open>startListening\<close> or \<open>speak\<close> rejects at once with a fixed string. In a host that has
  \<^verbatim>\<open>window\<close> and no constructor \<^verbatim>\<open>webkitSpeechRecognition\<close>, line 125 calls
  \<^verbatim>\<open>new\<close> on the missing constructor while the module loads. With the key set, the load
  throws the \<^verbatim>\<open>TypeError\<close> of the engine; no voice service is built, and neither guard
  with its fixed string is ever reached.
\<close>

theorem load_throws_without_recognition_constructor:
  "aiService_load [''VITE_GEMINI_API_KEY'' \<mapsto> js ''AIzaSyExampleKey'']
      \<lparr>window = Some \<lparr>webkitSpeechRecognition = None,
                       speechSynthesis = JsObject SpeechSynthesis\<rparr>,
       not_a_constructor_message = js ''window.webkitSpeechRecognition is not a constructor''\<rparr> =
     Inl (TypeError (js ''window.webkitSpeechRecognition is not a constructor'')) \<and>
   new_voiceService
      \<lparr>window = Some \<lparr>webkitSpeechRecognition = None,
                       speechSynthesis = JsObject SpeechSynthesis\<rparr>,
       not_a_constructor_message = js ''window.webkitSpeechRecognition is not a constructor''\<rparr> =
     Inl (TypeError (js ''window.webkitSpeechRecognition is not a constructor''))"
  by (simp add: aiService_load_def new_voiceService_def falsy_string_def js_Nil)

text \<open>
  C4. With the synthesis object present, every call of \<open>speak\<close> is settled when 10000
  milliseconds have passed, whatever events the engine fires and whichever of the timer
  and an engine event of the same millisecond the loop takes first. With no engine event
  the promise is pending before the ceiling and resolved by the timer at the ceiling.
  When the first engine event is the end of the utterance, the promise resolves at the
  earlier of that event and the ceiling. An error event before the ceiling settles the
  promise too, as a rejection.
\<close>

theorem speak_settles_within_ceiling:
  "\<not> falsy_ref (synthesis svc) \<longrightarrow>
     spoken (run_until timer_first 10000 events (speak svc text)) \<noteq> Pending \<and>
     (\<forall>h. spoken (run_until timer_first h [] (speak svc text)) =
        (if 10000 \<le> h then Fulfilled () else Pending)) \<and>
     (\<forall>t rest h. spoken (run_until timer_first h ((t, EndEvent) # rest) (speak svc text)) =
        (if min t 10000 \<le> h then Fulfilled () else Pending)) \<and>
     (\<forall>t e rest h. t < 10000 \<and> t \<le> h \<longrightarrow>
        spoken (run_until timer_first h ((t, ErrorEvent e) # rest) (speak svc text)) =
          Rejected (SpeechErrorEvent e))"
proof
  assume "\<not> falsy_ref (synthesis svc)"
  then have s0: "speak svc text =
      \<lparr>spoken = Pending, onend = Some SecondOnEnd, onerror = True, timeout = Some 10000,
       queue = [text]\<rparr>"
    by (rule speak_supported)
  let ?s0 = "speak svc text"
  have armed: "spoken ?s0 = Pending \<longrightarrow> timeout ?s0 = Some 10000"
    by (simp add: s0)
  have ceiling: "spoken (run_until timer_first 10000 events ?s0) \<noteq> Pending"
    using armed by (rule run_until_ceiling) simp
  have idle: "spoken (expire True h ?s0) = (if 10000 \<le> h then Fulfilled () else Pending)" for h
    by (simp add: s0 expire_def timer_due_def resolve_def)
  have ended: "spoken (run_until timer_first h ((t, EndEvent) # rest) ?s0) =
      (if min t 10000 \<le> h then Fulfilled () else Pending)" for t rest h
  proof (cases "h < t")
    case True
    then show ?thesis by (simp add: idle) linarith
  next
    case False
    let ?s1 = "deliver UtteranceEnd (expire timer_first t ?s0)"
    have "spoken ?s1 = Fulfilled ()"
      by (simp add: s0 expire_def timer_due_def resolve_def)
    then have "spoken (run_until timer_first h rest ?s1) = Fulfilled ()"
      by (simp add: run_until_settled)
    with False show ?thesis by simp
  qed
  have failed: "spoken (run_until timer_first h ((t, ErrorEvent e) # rest) ?s0) =
      Rejected (SpeechErrorEvent e)" if "t < 10000 \<and> t \<le> h" for t e rest h
  proof -
    let ?s1 = "deliver (UtteranceError e) (expire timer_first t ?s0)"
    from that have "spoken ?s1 = Rejected (SpeechErrorEvent e)"
      by (simp add: s0 expire_def timer_due_def reject_def)
    then have "spoken (run_until timer_first h rest ?s1) = Rejected (SpeechErrorEvent e)"
      by (simp add: run_until_settled)
    with that show ?thesis by simp
  qed
  from ceiling idle ended failed
  show "spoken (run_until timer_first 10000 events ?s0) \<noteq> Pending \<and>
     (\<forall>h. spoken (run_until timer_first h [] ?s0) =
        (if 10000 \<le> h then Fulfilled () else Pending)) \<and>
     (\<forall>t rest h. spoken (run_until timer_first h ((t, EndEvent) # rest) ?s0) =
        (if min t 10000 \<le> h then Fulfilled () else Pending)) \<and>
     (\<forall>t e rest h. t < 10000 \<and> t \<le> h \<longrightarrow>
        spoken (run_until timer_first h ((t, ErrorEvent e) # rest) ?s0) =
          Rejected (SpeechErrorEvent e))"
    by simp
qed

text \<open>
  The theorem with a silent engine at and just before the ceiling, with an end event at
  1200 ms, with an end event that comes after the ceiling, and with an error at 300 ms.
\<close>

theorem speak_settles_within_ceiling_witness:
  "\<not> falsy_ref
      (synthesis \<lparr>recognition = JsObject SpeechRecognition, synthesis = JsObject SpeechSynthesis\<rparr>) \<and>
   spoken (run_until True 10000 []
      (speak \<lparr>recognition = JsObject SpeechRecognition, synthesis = JsObject SpeechSynthesis\<rparr> (js ''hello''))) =
     Fulfilled () \<and>
   spoken (run_until True 9999 []
      (speak \<lparr>recognition = JsObject SpeechRecognition, synthesis = JsObject SpeechSynthesis\<rparr> (js ''hello''))) =
     Pending \<and>
   spoken (run_until True 1200 [(1200, EndEvent)]
      (speak \<lparr>recognition = JsObject SpeechRecognition, synthesis = JsObject SpeechSynthesis\<rparr> (js ''hello''))) =
     Fulfilled () \<and>
   spoken (run_until True 10000 [(15000, EndEvent)]
      (speak \<lparr>recognition = JsObject SpeechRecognition, synthesis = JsObject SpeechSynthesis\<rparr> (js ''hello''))) =
     Fulfilled () \<and>
   spoken (run_until True 10000 [(300, ErrorEvent (js ''synthesis-failed''))]
      (speak \<lparr>recognition = JsObject SpeechRecognition, synthesis = JsObject SpeechSynthesis\<rparr> (js ''hello''))) =
     Rejected (SpeechErrorEvent (js ''synthesis-failed''))"
proof -
  let ?svc = "\<lparr>recognition = JsObject SpeechRecognition, synthesis = JsObject SpeechSynthesis\<rparr>"
  have cap: "\<not> falsy_ref (synthesis ?svc)" by (simp add: falsy_ref_def)
  note t = speak_settles_within_ceiling [of ?svc True "[]" "js ''hello''", THEN mp, OF cap]
  from t have idle: "\<forall>h. spoken (run_until True h [] (speak ?svc (js ''hello''))) =
      (if 10000 \<le> h then Fulfilled () else Pending)"
    by blast
  from t have ended: "\<forall>t rest h.
      spoken (run_until True h ((t, EndEvent) # rest) (speak ?svc (js ''hello''))) =
        (if min t 10000 \<le> h then Fulfilled () else Pending)"
    by blast
  from t have failed: "\<forall>t e rest h. t < 10000 \<and> t \<le> h \<longrightarrow>
      spoken (run_until True h ((t, ErrorEvent e) # rest) (speak ?svc (js ''hello''))) =
        Rejected (SpeechErrorEvent e)"
    by blast
  have a: "spoken (run_until True 10000 [] (speak ?svc (js ''hello''))) = Fulfilled ()"
    using idle [rule_format, where h = 10000] by simp
  have b: "spoken (run_until True 9999 [] (speak ?svc (js ''hello''))) = Pending"
    using idle [rule_format, where h = 9999] by simp
  have c: "spoken (run_until True 1200 [(1200, EndEvent)] (speak ?svc (js ''hello''))) =
      Fulfilled ()"
    using ended [rule_format, where t = 1200 and rest = "[]" and h = 1200] by simp
  have d: "spoken (run_until True 10000 [(15000, EndEvent)] (speak ?svc (js ''hello''))) =
      Fulfilled ()"
    using ended [rule_format, where t = 15000 and rest = "[]" and h = 10000] by simp
  have e: "spoken (run_until True 10000 [(300, ErrorEvent (js ''synthesis-failed''))]
      (speak ?svc (js ''hello''))) = Rejected (SpeechErrorEvent (js ''synthesis-failed''))"
    by (rule failed [rule_format]) simp
  from cap a b c d e show ?thesis by (intro conjI)
qed

text \<open>
  C5. Settlement in \<open>speak\<close> is idempotent. Once the promise is settled after some
  sequence of deliveries (end event, error event, timer, in any order and number), any
  further deliveries leave its state as it is: the first settlement wins. Each callback
  only calls the resolving functions and \<^verbatim>\<open>clearTimeout\<close>, which return normally on a
  settled promise, so a later attempt changes nothing and raises nothing.
\<close>

theorem speak_first_settlement_wins:
  "(spoken (fold deliver attempts (speak svc text)) \<noteq> Pending \<longrightarrow>
      spoken (fold deliver (attempts @ later) (speak svc text)) =
        spoken (fold deliver attempts (speak svc text))) \<and>
   (spoken s \<noteq> Pending \<longrightarrow> spoken (deliver ev s) = spoken s) \<and>
   resolve v (resolve w p) = resolve w p \<and>
   reject r (resolve w p) = resolve w p \<and>
   resolve v (reject r p) = reject r p \<and>
   reject q (reject r p) = reject r p"
proof -
  have "spoken (fold deliver (attempts @ later) (speak svc text)) =
      spoken (fold deliver attempts (speak svc text))"
    if "spoken (fold deliver attempts (speak svc text)) \<noteq> Pending"
    using that by (simp add: fold_deliver_settled)
  moreover have "spoken s \<noteq> Pending \<longrightarrow> spoken (deliver ev s) = spoken s"
    by (simp add: deliver_settled del: deliver.simps)
  moreover have "resolve v (resolve w p) = resolve w p" "reject r (resolve w p) = resolve w p"
    by (simp_all add: resolve_settled reject_settled resolve_not_Pending)
  moreover have "resolve v (reject r p) = reject r p" "reject q (reject r p) = reject r p"
    by (simp_all add: resolve_settled reject_settled reject_not_Pending)
  ultimately show ?thesis by blast
qed

text \<open>
  The theorem when the timer fires first and an error and an end event follow, and when
  an error comes first and the timer and an end event follow.
\<close>

theorem speak_first_settlement_wins_witness:
  "spoken (fold deliver [TimerExpired]
      (speak \<lparr>recognition = JsObject SpeechRecognition, synthesis = JsObject SpeechSynthesis\<rparr> (js ''hello''))) =
     Fulfilled () \<and>
   spoken (fold deliver ([TimerExpired] @ [UtteranceError (js ''synthesis-failed''), UtteranceEnd])
      (speak \<lparr>recognition = JsObject SpeechRecognition, synthesis = JsObject SpeechSynthesis\<rparr> (js ''hello''))) =
     Fulfilled () \<and>
   spoken (fold deliver ([UtteranceError (js ''synthesis-failed'')] @ [TimerExpired, UtteranceEnd])
      (speak \<lparr>recognition = JsObject SpeechRecognition, synthesis = JsObject SpeechSynthesis\<rparr> (js ''hello''))) =
     Rejected (SpeechErrorEvent (js ''synthesis-failed''))"
proof -
  let ?svc = "\<lparr>recognition = JsObject SpeechRecognition, synthesis = JsObject SpeechSynthesis\<rparr>"
  let ?s0 = "speak ?svc (js ''hello'')"
  have s0: "?s0 = \<lparr>spoken = Pending, onend = Some SecondOnEnd, onerror = True,
      timeout = Some 10000, queue = [js ''hello'']\<rparr>"
    by (rule speak_supported) (simp add: falsy_ref_def)
  have a: "spoken (fold deliver [TimerExpired] ?s0) = Fulfilled ()"
    by (simp add: s0 resolve_def)
  have b: "spoken (fold deliver [UtteranceError (js ''synthesis-failed'')] ?s0) =
      Rejected (SpeechErrorEvent (js ''synthesis-failed''))"
    by (simp add: s0 reject_def)
  have "spoken (fold deliver ([TimerExpired] @ [UtteranceError (js ''synthesis-failed''), UtteranceEnd]) ?s0) =
      spoken (fold deliver [TimerExpired] ?s0)"
    by (rule speak_first_settlement_wins [THEN conjunct1, THEN mp]) (simp only: a, simp)
  moreover have "spoken (fold deliver ([UtteranceError (js ''synthesis-failed'')] @ [TimerExpired, UtteranceEnd]) ?s0) =
      spoken (fold deliver [UtteranceError (js ''synthesis-failed'')] ?s0)"
    by (rule speak_first_settlement_wins [THEN conjunct1, THEN mp]) (simp only: b, simp)
  ultimately show ?thesis by (simp only: a b)
qed

subsection \<open>Module initialisation\<close>

lemma TypeError_not_Error: "TypeError m \<noteq> Error m'"
  by (simp add: Error_def TypeError_def js_def)

text \<open>
  C10. The claim: the rejection branches of \<open>startListening\<close> and \<open>speak\<close> are reachable
  only in a host where \<^verbatim>\<open>window\<close> is undefined. The synthesis property is read from
  \<^verbatim>\<open>window.speechSynthesis\<close> without a constructor call: in a host whose window has the
  recognition constructor and no \<^verbatim>\<open>speechSynthesis\<close>, the module loads, the synthesis
  property is \<^verbatim>\<open>undefined\<close>, and \<open>speak\<close> takes its rejection branch.
\<close>

theorem speak_reachable_with_window:
  "aiService_load [''VITE_GEMINI_API_KEY'' \<mapsto> js ''AIzaSyExampleKey'']
      \<lparr>window = Some \<lparr>webkitSpeechRecognition = Some SpeechRecognition,
                       speechSynthesis = JsUndefined\<rparr>,
       not_a_constructor_message = js ''not a constructor''\<rparr> =
     Inr \<lparr>genAI = js ''AIzaSyExampleKey'',
          voice = \<lparr>recognition = JsObject SpeechRecognition, synthesis = JsUndefined\<rparr>\<rparr> \<and>
   speak \<lparr>recognition = JsObject SpeechRecognition, synthesis = JsUndefined\<rparr> (js ''hello'') =
     \<lparr>spoken = Rejected (Text (js ''Speech synthesis not supported'')), onend = None,
      onerror = False, timeout = None, queue = []\<rparr>"
  by (simp add: aiService_load_def new_voiceService_def falsy_string_def js_Nil
        speak_unsupported falsy_ref_def)

text \<open>
  C10, as amended. Capability detection happens once, when the module loads, and tests
  only whether \<^verbatim>\<open>window\<close> is defined. When it is defined and the constructor
  \<^verbatim>\<open>webkitSpeechRecognition\<close> is absent, building the voice service throws, and so does
  the load of the module once the key check has passed. When the voice service has been
  built, the rejection branch of \<open>startListening\<close> is taken exactly in a host without
  \<^verbatim>\<open>window\<close>, and the rejection branch of \<open>speak\<close> is taken exactly in a host without
  \<^verbatim>\<open>window\<close> or with a window whose \<^verbatim>\<open>speechSynthesis\<close> is missing.
\<close>

theorem capability_detection:
  "(\<forall>w. window h = Some w \<and> webkitSpeechRecognition w = None \<longrightarrow>
      new_voiceService h = Inl (TypeError (not_a_constructor_message h)) \<and>
      (\<not> falsy (env ''VITE_GEMINI_API_KEY'') \<longrightarrow>
         aiService_load env h = Inl (TypeError (not_a_constructor_message h)))) \<and>
   (\<forall>svc. new_voiceService h = Inr svc \<longrightarrow>
      (falsy_ref (recognition svc) \<longleftrightarrow> window h = None) \<and>
      (heard (startListening svc) = Rejected (Text (js ''Speech recognition not supported''))
         \<longleftrightarrow> window h = None) \<and>
      (falsy_ref (synthesis svc) \<longleftrightarrow>
         window h = None \<or> (\<exists>w. window h = Some w \<and> falsy_ref (speechSynthesis w))) \<and>
      (\<forall>words. spoken (speak svc words) = Rejected (Text (js ''Speech synthesis not supported''))
         \<longleftrightarrow> window h = None \<or> (\<exists>w. window h = Some w \<and> falsy_ref (speechSynthesis w))))"
proof (intro conjI allI impI)
  fix w
  assume w: "window h = Some w \<and> webkitSpeechRecognition w = None"
  then show v: "new_voiceService h = Inl (TypeError (not_a_constructor_message h))"
    by (simp add: new_voiceService_def)
  assume "\<not> falsy (env ''VITE_GEMINI_API_KEY'')"
  then show "aiService_load env h = Inl (TypeError (not_a_constructor_message h))"
    by (simp add: aiService_load_def v falsy_def split: option.splits)
next
  fix svc
  assume svc: "new_voiceService h = Inr svc"
  have listen: "heard (startListening svc) = Rejected (Text (js ''Speech recognition not supported''))
      \<longleftrightarrow> falsy_ref (recognition svc)"
    by (cases "falsy_ref (recognition svc)")
       (simp_all add: startListening_unsupported startListening_supported)
  have say: "spoken (speak svc words) = Rejected (Text (js ''Speech synthesis not supported''))
      \<longleftrightarrow> falsy_ref (synthesis svc)" for words
    by (cases "falsy_ref (synthesis svc)") (simp_all add: speak_unsupported speak_supported)
  from svc show r: "falsy_ref (recognition svc) \<longleftrightarrow> window h = None"
    by (auto simp: new_voiceService_def falsy_ref_def split: option.splits)
  from svc show s: "falsy_ref (synthesis svc) \<longleftrightarrow>
      window h = None \<or> (\<exists>w. window h = Some w \<and> falsy_ref (speechSynthesis w))"
    by (auto simp: new_voiceService_def falsy_ref_def split: option.splits)
  from r listen
  show "heard (startListening svc) = Rejected (Text (js ''Speech recognition not supported''))
      \<longleftrightarrow> window h = None"
    by simp
  fix words
  from s say [of words]
  show "spoken (speak svc words) = Rejected (Text (js ''Speech synthesis not supported''))
      \<longleftrightarrow> window h = None \<or> (\<exists>w. window h = Some w \<and> falsy_ref (speechSynthesis w))"
    by simp
qed

text \<open>
  The theorem in a host whose window lacks the constructor, in a host without window,
  and in a host whose window has the constructor and no \<^verbatim>\<open>speechSynthesis\<close>.
\<close>

theorem capability_detection_witness:
  "new_voiceService
      \<lparr>window = Some \<lparr>webkitSpeechRecognition = None,
                       speechSynthesis = JsObject SpeechSynthesis\<rparr>,
       not_a_constructor_message = js ''not a constructor''\<rparr> =
     Inl (TypeError (js ''not a constructor'')) \<and>
   heard (startListening \<lparr>recognition = JsNull, synthesis = JsNull\<rparr>) =
     Rejected (Text (js ''Speech recognition not supported'')) \<and>
   spoken (speak \<lparr>recognition = JsObject SpeechRecognition, synthesis = JsUndefined\<rparr>
      (js ''hello'')) =
     Rejected (Text (js ''Speech synthesis not supported'')) \<and>
   heard (startListening \<lparr>recognition = JsObject SpeechRecognition, synthesis = JsUndefined\<rparr>) \<noteq>
     Rejected (Text (js ''Speech recognition not supported''))"
proof -
  let ?m = "js ''not a constructor''"
  let ?bare = "\<lparr>window = Some \<lparr>webkitSpeechRecognition = None,
      speechSynthesis = JsObject SpeechSynthesis\<rparr>, not_a_constructor_message = ?m\<rparr>"
  let ?none = "\<lparr>window = None, not_a_constructor_message = ?m\<rparr>"
  let ?mute = "\<lparr>window = Some \<lparr>webkitSpeechRecognition = Some SpeechRecognition,
      speechSynthesis = JsUndefined\<rparr>, not_a_constructor_message = ?m\<rparr>"
  let ?env = "[''VITE_GEMINI_API_KEY'' \<mapsto> js ''AIzaSyExampleKey'']"
  have a: "new_voiceService ?bare = Inl (TypeError ?m)"
    using capability_detection [of ?bare ?env] by simp
  have n: "new_voiceService ?none = Inr \<lparr>recognition = JsNull, synthesis = JsNull\<rparr>"
    by (simp add: new_voiceService_def)
  have b: "heard (startListening \<lparr>recognition = JsNull, synthesis = JsNull\<rparr>) =
      Rejected (Text (js ''Speech recognition not supported''))"
    using capability_detection [of ?none ?env, THEN conjunct2, THEN spec, THEN mp, OF n,
        THEN conjunct2, THEN conjunct1]
    by simp
  have m: "new_voiceService ?mute =
      Inr \<lparr>recognition = JsObject SpeechRecognition, synthesis = JsUndefined\<rparr>"
    by (simp add: new_voiceService_def)
  note t = capability_detection [of ?mute ?env, THEN conjunct2, THEN spec, THEN mp, OF m]
  have c: "spoken (speak \<lparr>recognition = JsObject SpeechRecognition, synthesis = JsUndefined\<rparr>
      (js ''hello'')) = Rejected (Text (js ''Speech synthesis not supported''))"
    using t [THEN conjunct2, THEN conjunct2, THEN conjunct2, THEN spec, of "js ''hello''"]
    by (simp add: falsy_ref_def)
  have d: "heard (startListening \<lparr>recognition = JsObject SpeechRecognition,
      synthesis = JsUndefined\<rparr>) \<noteq> Rejected (Text (js ''Speech recognition not supported''))"
    using t [THEN conjunct2, THEN conjunct1] by simp
  from a b c d show ?thesis by (intro conjI)
qed

text \<open>
  C8. Loading \<^verbatim>\<open>aiService.ts\<close> throws the error "Gemini API key is required" exactly
  when the key is missing or empty. Loading the storage configuration module validates
  nothing: the configuration object holds the six environment values as they were read,
  a missing one as \<^verbatim>\<open>undefined\<close>; that object is what \<^verbatim>\<open>initializeApp\<close> receives; the
  load succeeds whenever the three calls of the client succeed on it, and every throw of
  the load is a throw of the client.
\<close>

theorem configuration_checks:
  "(falsy (env ''VITE_GEMINI_API_KEY'') \<longrightarrow>
      aiService_load env h = Inl (Error (js ''Gemini API key is required''))) \<and>
   (aiService_load env h = Inl (Error (js ''Gemini API key is required'')) \<longrightarrow>
      falsy (env ''VITE_GEMINI_API_KEY'')) \<and>
   firebaseConfig env =
     \<lparr>apiKey = env ''VITE_FIREBASE_API_KEY'',
          authDomain = env ''VITE_FIREBASE_AUTH_DOMAIN'',
          projectId = env ''VITE_FIREBASE_PROJECT_ID'',
          storageBucket = env ''VITE_FIREBASE_STORAGE_BUCKET'',
          messagingSenderId = env ''VITE_FIREBASE_MESSAGING_SENDER_ID'',
          appId = env ''VITE_FIREBASE_APP_ID''\<rparr> \<and>
   (\<forall>a d st.
      initializeApp client
        \<lparr>apiKey = env ''VITE_FIREBASE_API_KEY'',
          authDomain = env ''VITE_FIREBASE_AUTH_DOMAIN'',
          projectId = env ''VITE_FIREBASE_PROJECT_ID'',
          storageBucket = env ''VITE_FIREBASE_STORAGE_BUCKET'',
          messagingSenderId = env ''VITE_FIREBASE_MESSAGING_SENDER_ID'',
          appId = env ''VITE_FIREBASE_APP_ID''\<rparr> = Inr a \<and>
      getFirestore client a = Inr d \<and> getStorage client a = Inr st \<longrightarrow>
      firebase_load client env = Inr \<lparr>app = a, db = d, storage = st\<rparr>) \<and>
   (\<forall>e. firebase_load client env = Inl e \<longrightarrow>
      initializeApp client
        \<lparr>apiKey = env ''VITE_FIREBASE_API_KEY'',
          authDomain = env ''VITE_FIREBASE_AUTH_DOMAIN'',
          projectId = env ''VITE_FIREBASE_PROJECT_ID'',
          storageBucket = env ''VITE_FIREBASE_STORAGE_BUCKET'',
          messagingSenderId = env ''VITE_FIREBASE_MESSAGING_SENDER_ID'',
          appId = env ''VITE_FIREBASE_APP_ID''\<rparr> = Inl e \<or>
      (\<exists>a. initializeApp client
             \<lparr>apiKey = env ''VITE_FIREBASE_API_KEY'',
          authDomain = env ''VITE_FIREBASE_AUTH_DOMAIN'',
          projectId = env ''VITE_FIREBASE_PROJECT_ID'',
          storageBucket = env ''VITE_FIREBASE_STORAGE_BUCKET'',
          messagingSenderId = env ''VITE_FIREBASE_MESSAGING_SENDER_ID'',
          appId = env ''VITE_FIREBASE_APP_ID''\<rparr> = Inr a \<and>
           (getFirestore client a = Inl e \<or> getStorage client a = Inl e)))"
proof (intro conjI allI impI)
  assume "falsy (env ''VITE_GEMINI_API_KEY'')"
  then show "aiService_load env h = Inl (Error (js ''Gemini API key is required''))"
    by (simp add: aiService_load_def falsy_def split: option.splits)
next
  assume "aiService_load env h = Inl (Error (js ''Gemini API key is required''))"
  then show "falsy (env ''VITE_GEMINI_API_KEY'')"
    by (auto simp: aiService_load_def falsy_def new_voiceService_def TypeError_not_Error
          split: option.splits if_splits sum.splits)
next
  show "firebaseConfig env =
     \<lparr>apiKey = env ''VITE_FIREBASE_API_KEY'',
          authDomain = env ''VITE_FIREBASE_AUTH_DOMAIN'',
          projectId = env ''VITE_FIREBASE_PROJECT_ID'',
          storageBucket = env ''VITE_FIREBASE_STORAGE_BUCKET'',
          messagingSenderId = env ''VITE_FIREBASE_MESSAGING_SENDER_ID'',
          appId = env ''VITE_FIREBASE_APP_ID''\<rparr>"
    by (simp add: firebaseConfig_def)
next
  fix a d st
  assume "initializeApp client
        \<lparr>apiKey = env ''VITE_FIREBASE_API_KEY'',
          authDomain = env ''VITE_FIREBASE_AUTH_DOMAIN'',
          projectId = env ''VITE_FIREBASE_PROJECT_ID'',
          storageBucket = env ''VITE_FIREBASE_STORAGE_BUCKET'',
          messagingSenderId = env ''VITE_FIREBASE_MESSAGING_SENDER_ID'',
          appId = env ''VITE_FIREBASE_APP_ID''\<rparr> = Inr a \<and>
      getFirestore client a = Inr d \<and> getStorage client a = Inr st"
  then show "firebase_load client env = Inr \<lparr>app = a, db = d, storage = st\<rparr>"
    by (simp add: firebase_load_def firebaseConfig_def)
next
  fix e
  assume "firebase_load client env = Inl e"
  then show "initializeApp client
        \<lparr>apiKey = env ''VITE_FIREBASE_API_KEY'',
          authDomain = env ''VITE_FIREBASE_AUTH_DOMAIN'',
          projectId = env ''VITE_FIREBASE_PROJECT_ID'',
          storageBucket = env ''VITE_FIREBASE_STORAGE_BUCKET'',
          messagingSenderId = env ''VITE_FIREBASE_MESSAGING_SENDER_ID'',
          appId = env ''VITE_FIREBASE_APP_ID''\<rparr> = Inl e \<or>
      (\<exists>a. initializeApp client
             \<lparr>apiKey = env ''VITE_FIREBASE_API_KEY'',
          authDomain = env ''VITE_FIREBASE_AUTH_DOMAIN'',
          projectId = env ''VITE_FIREBASE_PROJECT_ID'',
          storageBucket = env ''VITE_FIREBASE_STORAGE_BUCKET'',
          messagingSenderId = env ''VITE_FIREBASE_MESSAGING_SENDER_ID'',
          appId = env ''VITE_FIREBASE_APP_ID''\<rparr> = Inr a \<and>
           (getFirestore client a = Inl e \<or> getStorage client a = Inl e))"
    by (auto simp: firebase_load_def firebaseConfig_def split: sum.splits)
qed

text \<open>
  The theorem with two of the six store values set and the key of the generative
  service missing: the first module throws; the second loads, and the client has
  received the two values and four times \<^verbatim>\<open>undefined\<close>.
\<close>

theorem configuration_checks_witness:
  "falsy ([''VITE_FIREBASE_API_KEY'' \<mapsto> js ''AIzaSyStoreKey'',
           ''VITE_FIREBASE_PROJECT_ID'' \<mapsto> js ''medical-ai''] ''VITE_GEMINI_API_KEY'') \<and>
   aiService_load
      [''VITE_FIREBASE_API_KEY'' \<mapsto> js ''AIzaSyStoreKey'',
       ''VITE_FIREBASE_PROJECT_ID'' \<mapsto> js ''medical-ai'']
      \<lparr>window = Some \<lparr>webkitSpeechRecognition = Some SpeechRecognition,
                       speechSynthesis = JsObject SpeechSynthesis\<rparr>,
       not_a_constructor_message = js ''not a constructor''\<rparr> =
     Inl (Error (js ''Gemini API key is required'')) \<and>
   firebase_load accepting_client
      [''VITE_FIREBASE_API_KEY'' \<mapsto> js ''AIzaSyStoreKey'',
       ''VITE_FIREBASE_PROJECT_ID'' \<mapsto> js ''medical-ai''] =
     Inr \<lparr>app = \<lparr>apiKey = Some (js ''AIzaSyStoreKey''), authDomain = None,
                  projectId = Some (js ''medical-ai''), storageBucket = None,
                  messagingSenderId = None, appId = None\<rparr>,
          db = (), storage = ()\<rparr>"
proof -
  let ?env = "[''VITE_FIREBASE_API_KEY'' \<mapsto> js ''AIzaSyStoreKey'',
      ''VITE_FIREBASE_PROJECT_ID'' \<mapsto> js ''medical-ai'']"
  let ?h = "\<lparr>window = Some \<lparr>webkitSpeechRecognition = Some SpeechRecognition,
      speechSynthesis = JsObject SpeechSynthesis\<rparr>,
      not_a_constructor_message = js ''not a constructor''\<rparr>"
  let ?cfg = "\<lparr>apiKey = Some (js ''AIzaSyStoreKey''), authDomain = None,
      projectId = Some (js ''medical-ai''), storageBucket = None,
      messagingSenderId = None, appId = None\<rparr>"
  note t = configuration_checks [of ?env ?h accepting_client]
  have k: "falsy (?env ''VITE_GEMINI_API_KEY'')"
    by (simp add: falsy_def)
  have a: "aiService_load ?env ?h = Inl (Error (js ''Gemini API key is required''))"
    using t [THEN conjunct1] k by (rule mp)
  have c: "firebaseConfig ?env = ?cfg"
    using t [THEN conjunct2, THEN conjunct2, THEN conjunct1] by simp
  have "firebase_load accepting_client ?env =
      Inr \<lparr>app = firebaseConfig ?env, db = (), storage = ()\<rparr>"
    by (rule t [THEN conjunct2, THEN conjunct2, THEN conjunct2, THEN conjunct1, rule_format])
       (simp add: accepting_client_def firebaseConfig_def)
  then have b: "firebase_load accepting_client ?env = Inr \<lparr>app = ?cfg, db = (), storage = ()\<rparr>"
    by (simp only: c)
  from k a b show ?thesis by (intro conjI)
qed

end
